theory Spec2Isabelle
  imports Complex_Main
begin

section \<open>Numbers\<close>

text \<open>
  The application computes with Python floats. The embedding uses exact rationals
  (\<^typ>\<open>rat\<close>): every quantity below is a rational function of the profile fields and of
  decimal literals, and the examples treated here stay far from any rounding boundary.
  Python's \<^verbatim>\<open>round(x)\<close> rounds to the nearest integer, a tie to the even neighbour;
  \<^verbatim>\<open>round(x, 1)\<close> does the same at one decimal place.
\<close>

definition py_round :: "rat \<Rightarrow> int" where
  "py_round x =
     (let f = \<lfloor>x\<rfloor>; d = x - of_int f
      in if d < 1 / 2 then f
         else if 1 / 2 < d then f + 1
         else if even f then f else f + 1)"

definition py_round1 :: "rat \<Rightarrow> rat" where
  "py_round1 x = of_int (py_round (x * 10)) / 10"

section \<open>The data model\<close>

text \<open>
  \<^verbatim>\<open>class User\<close> (app.py, lines 35-59). The password hash and the creation time stamp
  play no part in what follows and are left out; \<^verbatim>\<open>id\<close> is called \<open>uid\<close>.
\<close>

record user =
  uid :: nat
  name :: string
  email :: string
  height :: rat
  weight :: rat
  is_admin :: bool
  age :: int
  gender :: string
  activity_level :: string
  goal :: string
  calorie_goal :: rat
  protein_goal :: rat
  carbs_goal :: rat
  fats_goal :: rat

text \<open>The dictionary returned by \<^verbatim>\<open>calculate_user_macros\<close> (lines 354-361).\<close>

record macros =
  bmr :: int
  tdee :: int
  calories :: int
  protein :: rat
  carbs :: rat
  fats :: rat

section \<open>The macro calculator\<close>

text \<open>\<^verbatim>\<open>d.get(k, default)\<close> on a dictionary written as an association list.\<close>

definition dict_get :: "('k \<times> 'v) list \<Rightarrow> 'k \<Rightarrow> 'v \<Rightarrow> 'v" where
  "dict_get d k dflt = (case map_of d k of None \<Rightarrow> dflt | Some v \<Rightarrow> v)"

definition activity_multipliers :: "(string \<times> rat) list" where
  "activity_multipliers =
     [(''sedentary'', 1.2), (''light'', 1.375), (''moderate'', 1.55),
      (''active'', 1.725), (''very_active'', 1.9)]"

definition goal_adjustments :: "(string \<times> rat) list" where
  "goal_adjustments = [(''lose'', - 500), (''maintain'', 0), (''gain'', 300)]"

text \<open>
  \<^verbatim>\<open>calculate_user_macros\<close> (lines 306-361) on the user object: the four assignments to
  the object's goal fields and the returned dictionary. The \<^verbatim>\<open>db.session.commit()\<close> of
  line 352 acts on the database session and is modelled with the request handlers below.
\<close>

definition calculate_user_macros :: "user \<Rightarrow> user \<times> macros" where
  "calculate_user_macros u =
     (let bmr_v = (if gender u = ''male''
                   then 10 * weight u + 6.25 * height u - 5 * of_int (age u) + 5
                   else 10 * weight u + 6.25 * height u - 5 * of_int (age u) - 161);
          activity_multiplier = dict_get activity_multipliers (activity_level u) 1.55;
          tdee_v = bmr_v * activity_multiplier;
          goal_adjustment = dict_get goal_adjustments (goal u) 0;
          calorie_goal_v = tdee_v + goal_adjustment;
          protein_multiplier = (if goal u = ''gain'' then 2.2
                                else if goal u = ''lose'' then 2.4
                                else 2.0);
          protein_goal_v = weight u * protein_multiplier;
          fats_goal_v = (calorie_goal_v * 0.25) / 9;
          protein_calories = protein_goal_v * 4;
          fat_calories = fats_goal_v * 9;
          remaining_calories = calorie_goal_v - protein_calories - fat_calories;
          carbs_goal_v = remaining_calories / 4
      in (u\<lparr>calorie_goal := of_int (py_round calorie_goal_v),
            protein_goal := py_round1 protein_goal_v,
            carbs_goal := py_round1 carbs_goal_v,
            fats_goal := py_round1 fats_goal_v\<rparr>,
          \<lparr>bmr = py_round bmr_v,
           tdee = py_round tdee_v,
           calories = py_round calorie_goal_v,
           protein = py_round1 protein_goal_v,
           carbs = py_round1 carbs_goal_v,
           fats = py_round1 fats_goal_v\<rparr>))"

text \<open>
  The profile that the application's start-up block creates (lines 674-685): male, 30 years,
  175 cm, 70 kg, moderate activity, goal maintain; the goal fields hold the column defaults.
\<close>

definition admin_user :: user where
  "admin_user =
     \<lparr>uid = 1, name = ''Admin'', email = ''admin@fitness.com'', height = 175, weight = 70,
      is_admin = True, age = 30, gender = ''male'', activity_level = ''moderate'',
      goal = ''maintain'', calorie_goal = 2000, protein_goal = 150, carbs_goal = 200,
      fats_goal = 65\<rparr>"


text \<open>
  The log tables (lines 61-107). Dates are day numbers; creation time stamps are left out.
\<close>

record food_log =
  fl_id :: nat
  fl_user_id :: nat
  fl_date :: int
  fl_name :: string
  fl_calories :: rat
  fl_protein :: rat
  fl_carbs :: rat
  fl_fats :: rat

record workout_session =
  ws_id :: nat
  ws_user_id :: nat
  ws_date :: int
  start_time :: int
  end_time :: "int option"
  total_duration :: "int option"

record exercise_set =
  es_id :: nat
  workout_session_id :: nat
  exercise_name :: string
  es_weight :: rat
  reps :: int
  set_number :: int

record body_weight_log =
  bw_id :: nat
  bw_user_id :: nat
  bw_date :: int
  bw_weight :: rat

record db =
  users :: "user list"
  food_logs :: "food_log list"
  workout_sessions :: "workout_session list"
  exercise_sets :: "exercise_set list"
  body_weight_logs :: "body_weight_log list"

section \<open>The recommendation adapter\<close>




subsection \<open>The trailing window and the aggregation (lines 232-253)\<close>








subsection \<open>Strings\<close>








subsection \<open>The response (lines 266-302)\<close>











section \<open>The database session and the request handlers\<close>




definition get_user :: "db \<Rightarrow> nat \<Rightarrow> user option" where
  "get_user d i = find (\<lambda>u. uid u = i) (users d)"













section \<open>Sample data\<close>








section \<open>Auxiliary facts about rounding\<close>

lemma py_round_unique:
  assumes "of_int n - 1 / 2 < x" and "x < of_int n + 1 / 2"
  shows "py_round x = n"
proof -
  have "\<lfloor>x\<rfloor> = n \<or> \<lfloor>x\<rfloor> = n - 1"
    using assms by linarith
  then show ?thesis
  proof
    assume "\<lfloor>x\<rfloor> = n"
    then show ?thesis using assms by (simp add: py_round_def Let_def)
  next
    assume "\<lfloor>x\<rfloor> = n - 1"
    then show ?thesis using assms by (simp add: py_round_def Let_def)
  qed
qed



section \<open>The macro calculator: worked examples\<close>

text \<open>
  Claim C1, as stated: for the profile (male, 30 years, 175 cm, 70 kg, moderate, maintain)
  the calculator returns BMR 1673, TDEE 2593, calorie goal 2593, protein 140.0, fats 72.0 and
  carbs 346.3. The code does not: 10 * 70 + 6.25 * 175 - 5 * 30 + 5 is 1648.75, so every
  value but the protein goal differs.
\<close>

theorem recompute_goals_male_example_counterexample:
  "bmr (snd (calculate_user_macros admin_user)) \<noteq> 1673 \<and>
   tdee (snd (calculate_user_macros admin_user)) \<noteq> 2593 \<and>
   calories (snd (calculate_user_macros admin_user)) \<noteq> 2593 \<and>
   fats (snd (calculate_user_macros admin_user)) \<noteq> 72 \<and>
   carbs (snd (calculate_user_macros admin_user)) \<noteq> 346.3"
  by code_simp

text \<open>
  Claim C1, amended: for that profile, whatever the other fields of the user hold, the
  calculator returns BMR 1649, TDEE 2556, calorie goal 2556, protein 140.0, fats 71.0 and
  carbs 339.2, and stores the calorie, protein, carbs and fats values on the profile.
\<close>

theorem recompute_goals_male_example:
  "calculate_user_macros
     (u\<lparr>gender := ''male'', age := 30, height := 175, weight := 70,
        activity_level := ''moderate'', goal := ''maintain''\<rparr>) =
   (u\<lparr>gender := ''male'', age := 30, height := 175, weight := 70,
      activity_level := ''moderate'', goal := ''maintain'',
      calorie_goal := 2556, protein_goal := 140, carbs_goal := 339.2, fats_goal := 71\<rparr>,
    \<lparr>bmr = 1649, tdee = 2556, calories = 2556, protein = 140, carbs = 339.2, fats = 71\<rparr>)"
  apply (simp add: calculate_user_macros_def Let_def dict_get_def activity_multipliers_def
      goal_adjustments_def py_round1_def)
  apply (simp add: py_round_unique [of 2556] py_round_unique [of 1649] py_round_unique [of 1400]
      py_round_unique [of 3392] py_round_unique [of 710])
  done

text \<open>
  Claim C2, as stated: for the profile (female, 25 years, 160 cm, 60 kg, sedentary, lose) the
  carbs goal is 58.0, obtained from the rounded protein and fats goals. The code computes the
  carbs goal from the unrounded calorie, protein and fats values (lines 342-345 come before the
  rounding of lines 347-350): it is not 58.0, and it is not what the rounded values give.
\<close>

theorem recompute_goals_female_example_counterexample:
  "(let p = fst (calculate_user_macros
                   (admin_user\<lparr>gender := ''female'', age := 25, height := 160, weight := 60,
                      activity_level := ''sedentary'', goal := ''lose''\<rparr>))
    in carbs_goal p \<noteq> 58 \<and>
       py_round1 ((calorie_goal p - protein_goal p * 4 - fats_goal p * 9) / 4) = 58 \<and>
       carbs_goal p \<noteq>
         py_round1 ((calorie_goal p - protein_goal p * 4 - fats_goal p * 9) / 4))"
  by code_simp

text \<open>
  Claim C2, amended: for that profile the calculator returns BMR 1314, TDEE 1577, calorie
  goal 1077, protein 144.0, fats 29.9 and carbs 57.9, the carbs goal being the rounding of
  (1076.8 - 576 - 269.2) / 4 = 57.9, computed from the unrounded values.
\<close>

theorem recompute_goals_female_example:
  "calculate_user_macros
     (u\<lparr>gender := ''female'', age := 25, height := 160, weight := 60,
        activity_level := ''sedentary'', goal := ''lose''\<rparr>) =
   (u\<lparr>gender := ''female'', age := 25, height := 160, weight := 60,
      activity_level := ''sedentary'', goal := ''lose'',
      calorie_goal := 1077, protein_goal := 144, carbs_goal := 57.9, fats_goal := 29.9\<rparr>,
    \<lparr>bmr = 1314, tdee = 1577, calories = 1077, protein = 144, carbs = 57.9, fats = 29.9\<rparr>)"
  apply (simp add: calculate_user_macros_def Let_def dict_get_def activity_multipliers_def
      goal_adjustments_def py_round1_def)
  apply (simp add: py_round_unique [of 1314] py_round_unique [of 1577] py_round_unique [of 1077]
      py_round_unique [of 1440] py_round_unique [of 579] py_round_unique [of 299])
  done

section \<open>The macro calculator: the formulas\<close>




section \<open>The recommendation adapter: auxiliary facts\<close>











section \<open>The recommendation adapter: the result\<close>



section \<open>The recommendation adapter: the aggregation\<close>




section \<open>The request handlers: auxiliary facts\<close>










lemma get_user_logs_upd [simp]:
  "get_user (d\<lparr>body_weight_logs := ls\<rparr>) i = get_user d i"
  by (simp add: get_user_def)

section \<open>Logging a body weight\<close>




section \<open>The triggers of the recomputation\<close>

















section \<open>Deleting a body-weight entry\<close>








end
